theory Spec2Isabelle
  imports Complex_Main "HOL-Library.Word" "HOL-Library.Char_ord" "HOL-Library.List_Lexorder"
begin

section \<open>The contribution ledger of app.py\<close>

text \<open>
  The program keeps its data in the first worksheet of a Google Sheet: a header row and one
  data row per service, with the columns \<open>Servicio\<close>, \<open>Objetivo\<close> and \<open>Aportado\<close>
  (column 3). \<open>worksheet.get_all_records()\<close> returns the data rows as records keyed by the
  header; the amounts are Python integers (the widget \<open>st.number_input\<close> is created with
  the integers \<open>min_value=0\<close>, \<open>value=0\<close>, \<open>step=5\<close>, so its \<open>max_value\<close>, a difference
  of two amounts, is an integer as well).
\<close>

record service_row =
  Servicio :: string
  Objetivo :: int
  Aportado :: int

text \<open>The calls that reach the worksheet, in the order in which they are made.\<close>

datatype api_call = Get_all_records | Update_cell nat nat int

text \<open>
  Everything the program reads or changes outside its local variables:
  \<^item> \<open>sheet\<close>: the data rows of the worksheet, row \<open>i\<close> of the list being row \<open>i + 2\<close> of
    the worksheet (rows are counted from 1 and row 1 is the header);
  \<^item> \<open>online\<close>: whether the connection of lines 23 to 26 succeeds;
  \<^item> \<open>clock\<close>: the time in seconds;
  \<^item> \<open>cache\<close>: the entry of \<open>st.cache_resource\<close> for \<open>get_google_sheet_data\<close>, the
    data frame it returned and the time at which it was stored;
  \<^item> \<open>calls\<close>: the calls made to the worksheet so far.
\<close>

record world =
  sheet :: "service_row list"
  online :: bool
  clock :: nat
  cache :: "(service_row list \<times> nat) option"
  calls :: "api_call list"

text \<open>
  What ends a step abnormally: \<open>StoreUnavailable\<close> is \<open>st.stop()\<close> after the connection
  error of lines 29 to 35; the others are exceptions that nothing catches.
\<close>

datatype error =
    StoreUnavailable
  | APIError
  | KeyError
  | TypeError
  | ZeroDivisionError
  | OverflowError
  | StreamlitAPIException
  | DuplicateWidgetID

text \<open>
  A number handed to the worksheet: a Python integer, or a \<open>numpy.int64\<close>, which is what
  reading one cell of an integer column of a data frame gives.
\<close>

datatype cell_value = Py_int int | Np_int64 "64 word"

text \<open>
  What the page shows: the progress bar, the amounts, the input widget (service and
  \<open>max_value\<close>) and the messages of \<open>st.success\<close>, \<open>st.warning\<close> and \<open>st.error\<close>.
  Titles, headers and separators are constant and left out.
\<close>

datatype ui =
    St_error_no_encontrado string
  | St_progress real
  | St_markdown_monto int int
  | St_success_objetivo string
  | St_number_input string int
  | St_success_gracias int string
  | St_warning_supera int int
  | St_warning_mayor_que_0

text \<open>
  How a run of the script, or a part of it, ends: it goes on to the next statement, it
  calls \<open>st.rerun()\<close> (which abandons the run and starts the script again), or it
  stops with an error.
\<close>

datatype flow = Completed "ui list" | Rerun "ui list" | Raised error

fun shown :: "flow \<Rightarrow> ui list" where
  "shown (Completed out) = out"
| "shown (Rerun out) = out"
| "shown (Raised e) = []"

subsection \<open>get_google_sheet_data (lines 15 to 35)\<close>

text \<open>\<open>@st.cache_resource(ttl=3600)\<close>: an entry is returned while it is younger than this.\<close>

definition ttl :: nat where
  "ttl = 3600"

text \<open>The body of the function, run when the cache has no valid entry.\<close>

definition fetch :: "world \<Rightarrow> (error + service_row list) \<times> world" where
  "fetch w =
     (if online w
      then (Inr (sheet w),
            w\<lparr>cache := Some (sheet w, clock w), calls := calls w @ [Get_all_records]\<rparr>)
      else (Inl StoreUnavailable, w))"

definition get_google_sheet_data :: "world \<Rightarrow> (error + service_row list) \<times> world" where
  "get_google_sheet_data w =
     (case cache w of
        None \<Rightarrow> fetch w
      | Some (df, stamp) \<Rightarrow> if clock w < stamp + ttl then (Inr df, w) else fetch w)"

text \<open>\<open>st.cache_resource.clear()\<close>\<close>

definition cache_clear :: "world \<Rightarrow> world" where
  "cache_clear w = w\<lparr>cache := None\<rparr>"

subsection \<open>update_google_sheet (lines 37 to 58)\<close>

text \<open>
  \<open>df_latest[df_latest['Servicio'] == service_name].index\<close>, read at position 0: the
  index of the first row with that name, if there is one.
\<close>

fun row_index_in_df :: "string \<Rightarrow> service_row list \<Rightarrow> nat option" where
  "row_index_in_df service_name [] = None"
| "row_index_in_df service_name (r # rs) =
     (if Servicio r = service_name then Some 0
      else map_option Suc (row_index_in_df service_name rs))"

text \<open>
  \<open>worksheet.update_cell(row, col, value)\<close>. The value goes into the JSON body of the
  request, and a \<open>numpy.int64\<close> cannot be serialised: the call raises \<open>TypeError\<close> before
  anything is sent. A Python integer is sent. The program addresses column 3 only, the
  column of \<open>Aportado\<close>, and only rows it has just found among the data rows; a call
  for any other cell is recorded and leaves the data rows as they are.
\<close>

definition update_cell ::
  "world \<Rightarrow> nat \<Rightarrow> nat \<Rightarrow> cell_value \<Rightarrow> (error + unit) \<times> world" where
  "update_cell w r c value =
     (case value of
        Np_int64 x \<Rightarrow> (Inl TypeError, w)
      | Py_int v \<Rightarrow>
          if \<not> online w then (Inl APIError, w)
          else if c = 3 \<and> 2 \<le> r \<and> r - 2 < length (sheet w)
          then (Inr (),
                w\<lparr>sheet := (sheet w)[r - 2 := (sheet w ! (r - 2))\<lparr>Aportado := v\<rparr>],
                  calls := calls w @ [Update_cell r c v]\<rparr>)
          else (Inr (), w\<lparr>calls := calls w @ [Update_cell r c v]\<rparr>))"

text \<open>
  A data frame built from no records has no columns, so \<open>df_latest['Servicio']\<close> raises
  \<open>KeyError\<close> on it. \<open>df_latest.loc[..., 'Aportado']\<close> reads a \<open>numpy.int64\<close> from the
  integer column, and adding the contribution to it (line 53) stays in 64 bits and wraps
  around; the amounts of the column and the contribution fit in 64 bits, so
  \<open>word_of_int\<close> is exact on them. The function returns nothing; the model returns the
  message it shows.
\<close>

definition update_google_sheet :: "world \<Rightarrow> string \<Rightarrow> int \<Rightarrow> (error + ui list) \<times> world" where
  "update_google_sheet w service_name amount =
     (case get_google_sheet_data (cache_clear w) of
        (Inl e, w1) \<Rightarrow> (Inl e, w1)
      | (Inr df_latest, w1) \<Rightarrow>
          if df_latest = [] then (Inl KeyError, w1)
          else
            (case row_index_in_df service_name df_latest of
               Some i \<Rightarrow>
                 (let gspread_row_index = i + 2;
                      current_amount = (word_of_int (Aportado (df_latest ! i)) :: 64 word);
                      new_amount = current_amount + word_of_int amount
                  in case update_cell w1 gspread_row_index 3 (Np_int64 new_amount) of
                       (Inl e, w2) \<Rightarrow> (Inl e, w2)
                     | (Inr u, w2) \<Rightarrow> (Inr [], w2))
             | None \<Rightarrow> (Inr [St_error_no_encontrado service_name], w1)))"

subsection \<open>The button of a service (lines 116 to 127)\<close>

text \<open>
  The branch taken when the button of a row is pressed. \<open>row\<close> is the row of the data
  frame that \<open>app\<close> is displaying and \<open>aporte_input\<close> the value of its input widget.
  \<open>time.sleep(1)\<close> advances the clock.
\<close>

definition aportar :: "world \<Rightarrow> service_row \<Rightarrow> int \<Rightarrow> flow \<times> world" where
  "aportar w row aporte_input =
     (let servicio = Servicio row;
          objetivo = Objetivo row;
          aportado = Aportado row;
          max_aporte = objetivo - aportado
      in if aporte_input > 0
         then if aportado + aporte_input \<le> objetivo
              then (case update_google_sheet w servicio aporte_input of
                      (Inl e, w1) \<Rightarrow> (Raised e, w1)
                    | (Inr msgs, w1) \<Rightarrow>
                        (Rerun (msgs @ [St_success_gracias aporte_input servicio]),
                         w1\<lparr>clock := clock w1 + 1\<rparr>))
              else (Completed [St_warning_supera aporte_input max_aporte], w)
         else (Completed [St_warning_mayor_que_0], w))"

subsection \<open>The progress of a service (line 85)\<close>

text \<open>
  \<open>/\<close> on two Python integers is true division: it raises \<open>ZeroDivisionError\<close> on a
  zero divisor and \<open>OverflowError\<close> when the quotient, rounded to the nearest float,
  would be beyond the largest one (\<open>2 ^ 1024 - 2 ^ 971\<close>; half way to \<open>2 ^ 1024\<close> rounds up);
  otherwise it gives the float nearest to the quotient. The rounding of an exact result
  to a float is the parameter \<open>fl\<close>, so that nothing below depends on it. (A
  product beyond the float range is an infinity and raises nothing; in the comparisons of
  lines 85 and 92 it behaves as a number beyond every other, which is all that is used
  of \<open>fl\<close> there.)
\<close>

definition float_overflow :: "real \<Rightarrow> bool" where
  "float_overflow q = (2 ^ 1024 - 2 ^ 970 \<le> \<bar>q\<bar>)"

definition truediv :: "(real \<Rightarrow> real) \<Rightarrow> int \<Rightarrow> int \<Rightarrow> error + real" where
  "truediv fl a b =
     (if b = 0 then Inl ZeroDivisionError
      else if float_overflow (real_of_int a / real_of_int b) then Inl OverflowError
      else Inr (fl (real_of_int a / real_of_int b)))"

definition progreso_porcentaje :: "(real \<Rightarrow> real) \<Rightarrow> int \<Rightarrow> int \<Rightarrow> error + real" where
  "progreso_porcentaje fl aportado objetivo =
     (if objetivo > 0
      then (case truediv fl aportado objetivo of
              Inl e \<Rightarrow> Inl e
            | Inr q \<Rightarrow> Inr (min 100 (fl (q * 100))))
      else Inr 0)"

subsection \<open>The page (lines 61 to 130)\<close>

text \<open>
  Lines 85 to 94 of the loop body: the progress bar and the amounts of one row.
  \<open>st.progress\<close> accepts a float between 0.0 and 1.0 and raises on any other.
\<close>

definition barra :: "(real \<Rightarrow> real) \<Rightarrow> service_row \<Rightarrow> error + ui list" where
  "barra fl row =
     (case progreso_porcentaje fl (Aportado row) (Objetivo row) of
        Inl e \<Rightarrow> Inl e
      | Inr p \<Rightarrow>
          (let v = fl (p / 100)
           in if 0 \<le> v \<and> v \<le> 1
              then Inr [St_progress v, St_markdown_monto (Aportado row) (Objetivo row)]
              else Inl StreamlitAPIException))"

text \<open>The largest integer \<open>st.number_input\<close> accepts as a bound, \<open>(1 << 53) - 1\<close>.\<close>

definition js_max :: int where
  "js_max = 2 ^ 53 - 1"

text \<open>
  The loop of line 80 over the rows still to be displayed. \<open>press\<close> is the button pressed
  in this run, if any, with the value of the input widget beside it; \<open>keys\<close> are the
  services whose widgets are on the page already, since two widgets with one key are
  refused; \<open>out\<close> is what the page shows so far. A row that has reached its target
  gets no widgets. \<open>st.number_input\<close> (lines 106 to 113) refuses a \<open>max_value\<close> above
  \<open>js_max\<close>, and it holds no value outside \<open>min_value\<close> and \<open>max_value\<close>: a press that
  carries such a value is refused too, so the lines of the button only see values from 0 to
  \<open>max_aporte\<close>.
\<close>

fun filas ::
  "(real \<Rightarrow> real) \<Rightarrow> (string \<times> int) option \<Rightarrow> service_row list \<Rightarrow> string list \<Rightarrow> ui list
     \<Rightarrow> world \<Rightarrow> flow \<times> world" where
  "filas fl press [] keys out w = (Completed out, w)"
| "filas fl press (row # rest) keys out w =
     (case barra fl row of
        Inl e \<Rightarrow> (Raised e, w)
      | Inr bar \<Rightarrow>
          if Aportado row \<ge> Objetivo row
          then filas fl press rest keys (out @ bar @ [St_success_objetivo (Servicio row)]) w
          else
            (let max_aporte = Objetivo row - Aportado row;
                 out1 = out @ bar @ [St_number_input (Servicio row) max_aporte]
             in if js_max < max_aporte then (Raised StreamlitAPIException, w)
                else if Servicio row \<in> set keys then (Raised DuplicateWidgetID, w)
                else
                  (case press of
                     None \<Rightarrow> filas fl press rest (Servicio row # keys) out1 w
                   | Some (s, aporte_input) \<Rightarrow>
                       if s = Servicio row
                       then if aporte_input < 0 \<or> max_aporte < aporte_input
                            then (Raised StreamlitAPIException, w)
                            else (case aportar w row aporte_input of
                                    (Completed msgs, w1) \<Rightarrow>
                                      filas fl press rest (Servicio row # keys) (out1 @ msgs) w1
                                  | (Rerun msgs, w1) \<Rightarrow> (Rerun (out1 @ msgs), w1)
                                  | (Raised e, w1) \<Rightarrow> (Raised e, w1))
                       else filas fl press rest (Servicio row # keys) out1 w)))"

text \<open>
  One run of the script. \<open>sort_values(by='Servicio')\<close> raises \<open>KeyError\<close> on a data
  frame without columns, as above.
\<close>

definition app :: "(real \<Rightarrow> real) \<Rightarrow> (string \<times> int) option \<Rightarrow> world \<Rightarrow> flow \<times> world" where
  "app fl press w =
     (case get_google_sheet_data w of
        (Inl e, w1) \<Rightarrow> (Raised e, w1)
      | (Inr df_servicios, w1) \<Rightarrow>
          if df_servicios = [] then (Raised KeyError, w1)
          else filas fl press (sort_key Servicio df_servicios) [] [] w1)"

subsection \<open>A visitor's session\<close>

text \<open>
  What one visitor does, one thing after the other: open or reload the page, press the
  button of a service with a value in its input widget, or let time pass. After
  \<open>st.rerun()\<close> the script runs again with no button pressed.
\<close>

datatype event = Visit | Press string int | Wait nat

fun step :: "(real \<Rightarrow> real) \<Rightarrow> world \<Rightarrow> event \<Rightarrow> flow \<times> world" where
  "step fl w Visit = app fl None w"
| "step fl w (Press s v) =
     (case app fl (Some (s, v)) w of
        (Rerun out, w1) \<Rightarrow> app fl None w1
      | (Completed out, w1) \<Rightarrow> (Completed out, w1)
      | (Raised e, w1) \<Rightarrow> (Raised e, w1))"
| "step fl w (Wait n) = (Completed [], w\<lparr>clock := clock w + n\<rparr>)"


subsection \<open>Vocabulary of the properties\<close>



text \<open>
  The world a first visitor finds: the worksheet holds the given rows, the connection
  works and nothing is cached.
\<close>

definition first_visit :: "service_row list \<Rightarrow> world" where
  "first_visit rows = \<lparr>sheet = rows, online = True, clock = 0, cache = None, calls = []\<rparr>"

section \<open>Auxiliary facts\<close>

lemma row_index_in_df_Some:
  "row_index_in_df n df = Some i \<Longrightarrow> i < length df \<and> Servicio (df ! i) = n"
  by (induction df arbitrary: i) (auto split: if_splits)

lemma row_index_in_df_None:
  "(row_index_in_df n df = None) = (n \<notin> Servicio ` set df)"
  by (induction df) auto









text \<open>The definitions a run on given data unfolds.\<close>

lemmas run_defs =
  first_visit_def app_def get_google_sheet_data_def fetch_def ttl_def barra_def
  progreso_porcentaje_def truediv_def float_overflow_def js_max_def aportar_def
  update_google_sheet_def cache_clear_def update_cell_def Let_def

section \<open>Properties\<close>

subsection \<open>The order of validation and fetch\<close>

text \<open>
  C1 fails on the program. The worksheet holds 490 of 500 for Catering (it is shared for
  editing and was changed since the page was loaded), while the cache, less than an hour
  old, still holds 480. The visitor presses the button with 15, a value the input
  widget allows (its maximum is 20). Line 119 tests 480 + 15 against 500 and accepts;
  only then is the worksheet fetched again, and the fetched 490 is used for the sum
  alone: no capacity test is made against it although 490 + 15 exceeds 500, and the run
  goes on to the write of line 56, where it ends with \<open>TypeError\<close>.
\<close>

theorem stale_row_is_validated:
  "\<not> Aportado \<lparr>Servicio = ''Catering'', Objetivo = 500, Aportado = 490\<rparr> + 15 \<le> Objetivo \<lparr>Servicio = ''Catering'', Objetivo = 500, Aportado = 490\<rparr>
   \<and> app (\<lambda>x. x) (Some (''Catering'', 15))
       \<lparr>sheet = [\<lparr>Servicio = ''Catering'', Objetivo = 500, Aportado = 490\<rparr>], online = True, clock = 5, cache = Some ([\<lparr>Servicio = ''Catering'', Objetivo = 500, Aportado = 480\<rparr>], 0),
        calls = [Get_all_records]\<rparr> =
     (Raised TypeError,
      \<lparr>sheet = [\<lparr>Servicio = ''Catering'', Objetivo = 500, Aportado = 490\<rparr>], online = True, clock = 5, cache = Some ([\<lparr>Servicio = ''Catering'', Objetivo = 500, Aportado = 490\<rparr>], 5),
       calls = [Get_all_records, Get_all_records]\<rparr>)"
  by (simp add: run_defs)

subsection \<open>The invariant\<close>



subsection \<open>Listing the services\<close>

text \<open>
  C3, as the program has it. While the cache holds an entry younger than 3600 seconds,
  the services are listed from it and the worksheet is not contacted. With no entry, or
  an expired one, the worksheet is fetched, and what is returned and cached is its
  content at that moment.
\<close>

theorem get_google_sheet_data_cached:
  "(cache w = Some (df, stamp) \<and> clock w < stamp + ttl \<longrightarrow>
      get_google_sheet_data w = (Inr df, w)) \<and>
   ((cache w = None \<or> (cache w = Some (df, stamp) \<and> stamp + ttl \<le> clock w)) \<and> online w \<longrightarrow>
      get_google_sheet_data w =
        (Inr (sheet w),
         w\<lparr>cache := Some (sheet w, clock w), calls := calls w @ [Get_all_records]\<rparr>))"
  by (auto simp add: get_google_sheet_data_def fetch_def)

theorem get_google_sheet_data_cached_witness:
  "(cache \<lparr>sheet = [\<lparr>Servicio = ''Catering'', Objetivo = 500, Aportado = 490\<rparr>], online = True, clock = 3599, cache = Some ([\<lparr>Servicio = ''Catering'', Objetivo = 500, Aportado = 480\<rparr>], 0), calls = []\<rparr>
      = Some ([\<lparr>Servicio = ''Catering'', Objetivo = 500, Aportado = 480\<rparr>], 0) \<and> (3599::nat) < 0 + ttl)
   \<and> get_google_sheet_data
        \<lparr>sheet = [\<lparr>Servicio = ''Catering'', Objetivo = 500, Aportado = 490\<rparr>], online = True, clock = 3599, cache = Some ([\<lparr>Servicio = ''Catering'', Objetivo = 500, Aportado = 480\<rparr>], 0), calls = []\<rparr>
      = (Inr [\<lparr>Servicio = ''Catering'', Objetivo = 500, Aportado = 480\<rparr>],
         \<lparr>sheet = [\<lparr>Servicio = ''Catering'', Objetivo = 500, Aportado = 490\<rparr>], online = True, clock = 3599, cache = Some ([\<lparr>Servicio = ''Catering'', Objetivo = 500, Aportado = 480\<rparr>], 0), calls = []\<rparr>)
   \<and> (0 + ttl \<le> (3600::nat))
   \<and> get_google_sheet_data
        \<lparr>sheet = [\<lparr>Servicio = ''Catering'', Objetivo = 500, Aportado = 490\<rparr>], online = True, clock = 3600, cache = Some ([\<lparr>Servicio = ''Catering'', Objetivo = 500, Aportado = 480\<rparr>], 0), calls = []\<rparr>
      = (Inr [\<lparr>Servicio = ''Catering'', Objetivo = 500, Aportado = 490\<rparr>],
         \<lparr>sheet = [\<lparr>Servicio = ''Catering'', Objetivo = 500, Aportado = 490\<rparr>], online = True, clock = 3600, cache = Some ([\<lparr>Servicio = ''Catering'', Objetivo = 500, Aportado = 490\<rparr>], 3600),
          calls = [Get_all_records]\<rparr>)"
  using get_google_sheet_data_cached
          [of "\<lparr>sheet = [\<lparr>Servicio = ''Catering'', Objetivo = 500, Aportado = 490\<rparr>], online = True, clock = 3599, cache = Some ([\<lparr>Servicio = ''Catering'', Objetivo = 500, Aportado = 480\<rparr>], 0),
                calls = []\<rparr>" "[\<lparr>Servicio = ''Catering'', Objetivo = 500, Aportado = 480\<rparr>]" 0]
        get_google_sheet_data_cached
          [of "\<lparr>sheet = [\<lparr>Servicio = ''Catering'', Objetivo = 500, Aportado = 490\<rparr>], online = True, clock = 3600, cache = Some ([\<lparr>Servicio = ''Catering'', Objetivo = 500, Aportado = 480\<rparr>], 0),
                calls = []\<rparr>" "[\<lparr>Servicio = ''Catering'', Objetivo = 500, Aportado = 480\<rparr>]" 0]
  by (simp add: ttl_def)

text \<open>
  C3 as stated fails: listing the services twice fetches once. The first call fills the
  cache; the second returns the cached rows and leaves the calls made to the worksheet
  as they were.
\<close>

theorem get_google_sheet_data_second_call_counterexample:
  "get_google_sheet_data (first_visit [\<lparr>Servicio = ''Catering'', Objetivo = 500, Aportado = 480\<rparr>]) =
     (Inr [\<lparr>Servicio = ''Catering'', Objetivo = 500, Aportado = 480\<rparr>],
      \<lparr>sheet = [\<lparr>Servicio = ''Catering'', Objetivo = 500, Aportado = 480\<rparr>], online = True, clock = 0, cache = Some ([\<lparr>Servicio = ''Catering'', Objetivo = 500, Aportado = 480\<rparr>], 0),
       calls = [Get_all_records]\<rparr>)
   \<and> get_google_sheet_data
       \<lparr>sheet = [\<lparr>Servicio = ''Catering'', Objetivo = 500, Aportado = 480\<rparr>], online = True, clock = 0, cache = Some ([\<lparr>Servicio = ''Catering'', Objetivo = 500, Aportado = 480\<rparr>], 0),
        calls = [Get_all_records]\<rparr> =
     (Inr [\<lparr>Servicio = ''Catering'', Objetivo = 500, Aportado = 480\<rparr>],
      \<lparr>sheet = [\<lparr>Servicio = ''Catering'', Objetivo = 500, Aportado = 480\<rparr>], online = True, clock = 0, cache = Some ([\<lparr>Servicio = ''Catering'', Objetivo = 500, Aportado = 480\<rparr>], 0),
       calls = [Get_all_records]\<rparr>)"
  by (simp add: run_defs)

subsection \<open>Refusals\<close>

text \<open>
  C4 fails on the program. The worksheet holds 495 of 500 for Catering, the cache still
  480. A contribution of 10, allowed by the input widget (maximum 20), would take the
  service to 505: the claim has it refused with the remaining capacity, 5. The program
  tests it against the cached 480, accepts it, fetches, and ends at line 56 with
  \<open>TypeError\<close>: no capacity warning is shown and no remaining capacity is reported.
\<close>

theorem over_capacity_is_accepted:
  "Aportado \<lparr>Servicio = ''Catering'', Objetivo = 500, Aportado = 495\<rparr> + 10 > Objetivo \<lparr>Servicio = ''Catering'', Objetivo = 500, Aportado = 495\<rparr>
   \<and> app (\<lambda>x. x) (Some (''Catering'', 10))
       \<lparr>sheet = [\<lparr>Servicio = ''Catering'', Objetivo = 500, Aportado = 495\<rparr>], online = True, clock = 60, cache = Some ([\<lparr>Servicio = ''Catering'', Objetivo = 500, Aportado = 480\<rparr>], 0),
        calls = [Get_all_records]\<rparr> =
     (Raised TypeError,
      \<lparr>sheet = [\<lparr>Servicio = ''Catering'', Objetivo = 500, Aportado = 495\<rparr>], online = True, clock = 60, cache = Some ([\<lparr>Servicio = ''Catering'', Objetivo = 500, Aportado = 495\<rparr>], 60),
       calls = [Get_all_records, Get_all_records]\<rparr>)"
  by (simp add: run_defs)

text \<open>
  C6. A contribution of zero or of a negative amount is refused with the message asking
  for an amount greater than 0, and nothing else happens: no fetch, no write, the cache
  and the worksheet are as before.
\<close>

theorem aportar_invalid_amount:
  assumes "aporte_input \<le> 0"
  shows "aportar w row aporte_input = (Completed [St_warning_mayor_que_0], w)"
  using assms by (simp add: aportar_def Let_def)

theorem aportar_invalid_amount_witness:
  "(- 5 :: int) \<le> 0
   \<and> aportar (first_visit [\<lparr>Servicio = ''Catering'', Objetivo = 500, Aportado = 480\<rparr>]) \<lparr>Servicio = ''Catering'', Objetivo = 500, Aportado = 480\<rparr> (- 5) =
       (Completed [St_warning_mayor_que_0], first_visit [\<lparr>Servicio = ''Catering'', Objetivo = 500, Aportado = 480\<rparr>])"
  using aportar_invalid_amount [of "- 5" "first_visit [\<lparr>Servicio = ''Catering'', Objetivo = 500, Aportado = 480\<rparr>]" "\<lparr>Servicio = ''Catering'', Objetivo = 500, Aportado = 480\<rparr>"]
  by simp

text \<open>
  C7 fails on the program. The cached page lists DJ at 95 of 100 and Catering, but the row
  of DJ has since been removed from the worksheet. The visitor contributes 5 to DJ, as
  much as the input widget allows. The program fetches, shows that the service was not
  found, writes nothing, and then goes on to thank the visitor for the contribution
  (line 121), waits a second and reruns: the contribution is reported as made.
\<close>

theorem not_found_is_thanked:
  "row_index_in_df ''DJ'' [\<lparr>Servicio = ''Catering'', Objetivo = 500, Aportado = 480\<rparr>] = None
   \<and> app (\<lambda>x. x) (Some (''DJ'', 5))
       \<lparr>sheet = [\<lparr>Servicio = ''Catering'', Objetivo = 500, Aportado = 480\<rparr>], online = True, clock = 30,
        cache = Some ([\<lparr>Servicio = ''DJ'', Objetivo = 100, Aportado = 95\<rparr>, \<lparr>Servicio = ''Catering'', Objetivo = 500, Aportado = 480\<rparr>], 0), calls = [Get_all_records]\<rparr> =
     (Rerun [St_progress (24 / 25), St_markdown_monto 480 500, St_number_input ''Catering'' 20,
             St_progress (19 / 20), St_markdown_monto 95 100, St_number_input ''DJ'' 5,
             St_error_no_encontrado ''DJ'', St_success_gracias 5 ''DJ''],
      \<lparr>sheet = [\<lparr>Servicio = ''Catering'', Objetivo = 500, Aportado = 480\<rparr>], online = True, clock = 31, cache = Some ([\<lparr>Servicio = ''Catering'', Objetivo = 500, Aportado = 480\<rparr>], 30),
       calls = [Get_all_records, Get_all_records]\<rparr>)"
  by (simp add: run_defs less_eq_char_def less_char_def)

subsection \<open>Reaching the target\<close>

text \<open>
  C5 fails on the program. Catering stands at 480 of 500 and nothing is cached. The visitor
  loads the page and contributes the remaining capacity, 20. The contribution is
  accepted, the worksheet is fetched again, and the write of line 56 is handed a
  \<open>numpy.int64\<close>: the run ends with \<open>TypeError\<close>, no thanks are shown, nothing is committed
  and the row is still at 480.
\<close>

theorem remaining_capacity_is_not_committed:
  "Objetivo \<lparr>Servicio = ''Catering'', Objetivo = 500, Aportado = 480\<rparr> - Aportado \<lparr>Servicio = ''Catering'', Objetivo = 500, Aportado = 480\<rparr> = 20
   \<and> step (\<lambda>x. x) (snd (step (\<lambda>x. x) (first_visit [\<lparr>Servicio = ''Catering'', Objetivo = 500, Aportado = 480\<rparr>]) Visit)) (Press ''Catering'' 20) =
     (Raised TypeError,
      \<lparr>sheet = [\<lparr>Servicio = ''Catering'', Objetivo = 500, Aportado = 480\<rparr>], online = True, clock = 0, cache = Some ([\<lparr>Servicio = ''Catering'', Objetivo = 500, Aportado = 480\<rparr>], 0),
       calls = [Get_all_records, Get_all_records]\<rparr>)"
  by (simp add: run_defs)

text \<open>
  C8 fails on the program. The worksheet holds 100 of 100 for DJ, which has reached its
  target, while the cache still holds 90. The page offers the input and the button for DJ,
  and a contribution of 5 is not refused for lack of capacity: it is tested against the
  cached 90, accepted, and ends at line 56 with \<open>TypeError\<close>.
\<close>

theorem funded_is_offered_and_accepted:
  "Aportado \<lparr>Servicio = ''DJ'', Objetivo = 100, Aportado = 100\<rparr> \<ge> Objetivo \<lparr>Servicio = ''DJ'', Objetivo = 100, Aportado = 100\<rparr>
   \<and> fst (app (\<lambda>x. x) None
       \<lparr>sheet = [\<lparr>Servicio = ''DJ'', Objetivo = 100, Aportado = 100\<rparr>], online = True, clock = 120, cache = Some ([\<lparr>Servicio = ''DJ'', Objetivo = 100, Aportado = 90\<rparr>], 0),
        calls = [Get_all_records]\<rparr>) =
     Completed [St_progress (9 / 10), St_markdown_monto 90 100, St_number_input ''DJ'' 10]
   \<and> app (\<lambda>x. x) (Some (''DJ'', 5))
       \<lparr>sheet = [\<lparr>Servicio = ''DJ'', Objetivo = 100, Aportado = 100\<rparr>], online = True, clock = 120, cache = Some ([\<lparr>Servicio = ''DJ'', Objetivo = 100, Aportado = 90\<rparr>], 0),
        calls = [Get_all_records]\<rparr> =
     (Raised TypeError,
      \<lparr>sheet = [\<lparr>Servicio = ''DJ'', Objetivo = 100, Aportado = 100\<rparr>], online = True, clock = 120, cache = Some ([\<lparr>Servicio = ''DJ'', Objetivo = 100, Aportado = 100\<rparr>], 120),
       calls = [Get_all_records, Get_all_records]\<rparr>)"
  by (simp add: run_defs)

subsection \<open>Monotonicity\<close>


subsection \<open>The progress bar\<close>




end
